theory Spec2Isabelle
  imports Main "HOL-Library.Word"
begin

unbundle bit_operations_syntax

section \<open>Data model of sign.go\<close>

text \<open>
  The package signs one input of a transaction with the BIP143 digest algorithm and the
  fork identifier. The transaction types come from btcd's wire package; only the fields
  that sign.go reads or that the spec names are kept. A chainhash.Hash is a [32]byte
  array: it is a byte list here, and a theorem that speaks of a 32-byte slot assumes the
  length where it needs it. Pointers are taken to be non-nil: the transaction, its
  inputs and outputs, the cache and the key are values.
\<close>

type_synonym byte = "8 word"

record OutPoint =
  Hash :: "byte list"
  Index :: "32 word"

record TxIn =
  PreviousOutPoint :: OutPoint
  SignatureScript :: "byte list"
  Sequence :: "32 word"

record TxOut =
  Value :: "64 word"
  PkScript :: "byte list"

record MsgTx =
  Version :: "32 word"
  TxIn :: "TxIn list"
  TxOut :: "TxOut list"
  LockTime :: "32 word"

record TxSigHashes =
  HashPrevOuts :: "byte list"
  HashSequence :: "byte list"
  HashOutputs :: "byte list"

type_synonym SigHashType = "32 word"

text \<open>The two constants of sign.go, and the three of txscript the code compares with.\<close>

definition SigHashForkID :: SigHashType where
  "SigHashForkID = 0x40"

definition sigHashMask :: SigHashType where
  "sigHashMask = 0x1f"

definition SigHashNone :: SigHashType where
  "SigHashNone = 0x2"

definition SigHashSingle :: SigHashType where
  "SigHashSingle = 0x3"

definition SigHashAnyOneCanPay :: SigHashType where
  "SigHashAnyOneCanPay = 0x80"

text \<open>
  A Go call ends in one of three ways: it returns its values, it returns a non-nil error
  (\<open>Error\<close>, with the message), or it panics (\<open>PanicIndexOutOfRange\<close>, the run-time
  panic of an index expression out of range).
\<close>

datatype error = PanicIndexOutOfRange | Error string

text \<open>
  The pointer and slice arguments of the two functions (\<open>tx *wire.MsgTx\<close>,
  \<open>sigHashes *txscript.TxSigHashes\<close>, \<open>subScript []byte\<close>) denote objects in memory
  that a callee could write to. The record \<open>memory\<close> holds these objects and the
  standard output; a function takes the memory and returns it with its result.
\<close>

record memory =
  mem_tx :: MsgTx
  mem_sigHashes :: TxSigHashes
  mem_subScript :: "byte list"
  mem_stdout :: string

section \<open>Library functions the code calls\<close>

text \<open>\<open>bytes.Buffer.Write\<close> appends to the buffer; it never returns an error.\<close>

definition Write :: "byte list \<Rightarrow> byte list \<Rightarrow> byte list" where
  "Write buf p = buf @ p"

text \<open>\<open>binary.LittleEndian.PutUint16/32/64\<close>: the bytes stored, least significant first.\<close>

definition PutUint16 :: "16 word \<Rightarrow> byte list" where
  "PutUint16 v = [ucast v, ucast (drop_bit 8 v)]"

definition PutUint32 :: "32 word \<Rightarrow> byte list" where
  "PutUint32 v = [ucast v, ucast (drop_bit 8 v), ucast (drop_bit 16 v), ucast (drop_bit 24 v)]"

definition PutUint64 :: "64 word \<Rightarrow> byte list" where
  "PutUint64 v = [ucast v, ucast (drop_bit 8 v), ucast (drop_bit 16 v), ucast (drop_bit 24 v),
     ucast (drop_bit 32 v), ucast (drop_bit 40 v), ucast (drop_bit 48 v), ucast (drop_bit 56 v)]"

text \<open>
  Modelled from the spec: \<open>wire.WriteVarBytes\<close>, \<open>wire.WriteVarInt\<close> and
  \<open>wire.WriteTxOut\<close> belong to btcd's wire package, which is not under src/. The spec
  calls the first a canonical variable-length integer prefix that encodes the byte count
  of what follows, and an output a 64-bit value and a script; the definitions are the
  encoding that package implements (one byte below 0xfd, else a marker byte 0xfd, 0xfe or
  0xff and the value in 2, 4 or 8 little-endian bytes). The writer is a bytes.Buffer, so
  no write fails.
\<close>

definition WriteVarInt :: "byte list \<Rightarrow> 64 word \<Rightarrow> byte list" where
  "WriteVarInt w val =
     (if val < 0xfd then Write w [ucast val]
      else if val \<le> 0xffff then Write (Write w [0xfd]) (PutUint16 (ucast val))
      else if val \<le> 0xffffffff then Write (Write w [0xfe]) (PutUint32 (ucast val))
      else Write (Write w [0xff]) (PutUint64 val))"

definition WriteVarBytes :: "byte list \<Rightarrow> byte list \<Rightarrow> byte list" where
  "WriteVarBytes w bytes = Write (WriteVarInt w (of_nat (length bytes))) bytes"

definition WriteTxOut :: "byte list \<Rightarrow> TxOut \<Rightarrow> byte list" where
  "WriteTxOut w to = WriteVarBytes (Write w (PutUint64 (Value to))) (PkScript to)"

text \<open>
  Modelled from the spec: \<open>chainhash.DoubleHashB\<close> is btcd code outside src/; the spec
  defines the double-hash as a cryptographic hash function applied to its own output a
  second time. The hash function itself (SHA-256 in btcd) is the parameter \<open>H\<close>.
\<close>

definition DoubleHashB :: "(byte list \<Rightarrow> byte list) \<Rightarrow> byte list \<Rightarrow> byte list" where
  "DoubleHashB H b = H (H b)"

text \<open>
  Modelled from the spec: \<open>txscript.NewTxSigHashes\<close> is btcd code outside src/; the spec
  gives the three hashes as the double-hash of all input outpoints concatenated, of all
  input sequence numbers concatenated, and of all serialized outputs concatenated.
\<close>

definition NewTxSigHashes :: "(byte list \<Rightarrow> byte list) \<Rightarrow> MsgTx \<Rightarrow> TxSigHashes" where
  "NewTxSigHashes H tx =
     \<lparr> HashPrevOuts = DoubleHashB H
         (concat (map (\<lambda>i. Hash (PreviousOutPoint i) @ PutUint32 (Index (PreviousOutPoint i))) (TxIn tx))),
       HashSequence = DoubleHashB H (concat (map (\<lambda>i. PutUint32 (Sequence i)) (TxIn tx))),
       HashOutputs = DoubleHashB H (concat (map (WriteTxOut []) (TxOut tx))) \<rparr>"

text \<open>
  A Go index expression \<open>xs[i]\<close> with \<open>i\<close> of type int: the element when
  \<open>0 \<le> i < len(xs)\<close>, a run-time panic otherwise.
\<close>

definition goIndex :: "'a list \<Rightarrow> int \<Rightarrow> error + 'a" where
  "goIndex xs i =
     (if 0 \<le> i \<and> i < int (length xs) then Inr (xs ! nat i) else Inl PanicIndexOutOfRange)"

text \<open>The verb \<open>%d\<close> of \<open>fmt.Printf\<close> on an int: the decimal digits, with a minus sign.\<close>

fun showNat :: "nat \<Rightarrow> string" where
  "showNat n =
     (if n < 10 then [''0123456789'' ! n]
      else showNat (n div 10) @ [''0123456789'' ! (n mod 10)])"

declare showNat.simps [simp del]

definition showInt :: "int \<Rightarrow> string" where
  "showInt i = (if i < 0 then CHR ''-'' # showNat (nat (- i)) else showNat (nat i))"

definition Printf :: "string \<Rightarrow> memory \<Rightarrow> memory" where
  "Printf s m = m\<lparr>mem_stdout := mem_stdout m @ s\<rparr>"

section \<open>calcBip143SignatureHash\<close>

text \<open>The zero value of a chainhash.Hash (\<open>var zeroHash chainhash.Hash\<close>).\<close>

definition zeroHash :: "byte list" where
  "zeroHash = replicate 32 0"

text \<open>
  Lines 54 to 129 of sign.go: the contents of the local buffer \<open>sigHash\<close> when the
  function reaches its last line. Go's int is 64 bits wide; \<open>idx\<close> is an \<open>int\<close> here,
  and nothing in the function computes with it but \<open>len(tx.TxIn)-1\<close>, which cannot
  overflow. The three index expressions \<open>tx.TxIn[idx]\<close> read the same element; the
  first of them (line 88) is where an index out of range panics. The buffer is local, so
  a panic leaves nothing of it behind. The body assigns to no field of the transaction,
  of the cache or of the script.
\<close>

definition sigHashBuffer ::
  "(byte list \<Rightarrow> byte list) \<Rightarrow> SigHashType \<Rightarrow> int \<Rightarrow> 64 word \<Rightarrow> memory \<Rightarrow> error + byte list" where
  "sigHashBuffer H hashType idx amt m =
     (let tx = mem_tx m; sigHashes = mem_sigHashes m; subScript = mem_subScript m;
          sigHash = [];
          sigHash = Write sigHash (PutUint32 (Version tx));
          sigHash =
            (if hashType AND SigHashAnyOneCanPay = 0
             then Write sigHash (HashPrevOuts sigHashes)
             else Write sigHash zeroHash);
          sigHash =
            (if hashType AND SigHashAnyOneCanPay = 0 \<and>
                hashType AND sigHashMask \<noteq> SigHashSingle \<and>
                hashType AND sigHashMask \<noteq> SigHashNone
             then Write sigHash (HashSequence sigHashes)
             else Write sigHash zeroHash)
      in case goIndex (TxIn tx) idx of
           Inl e \<Rightarrow> Inl e
         | Inr txin \<Rightarrow>
            (let sigHash = Write sigHash (Hash (PreviousOutPoint txin));
                 sigHash = Write sigHash (PutUint32 (Index (PreviousOutPoint txin)));
                 sigHash = WriteVarBytes sigHash subScript;
                 sigHash = Write sigHash (PutUint64 amt);
                 sigHash = Write sigHash (PutUint32 (Sequence txin));
                 sigHash =
                   (if hashType AND SigHashSingle \<noteq> SigHashSingle \<and>
                       hashType AND SigHashNone \<noteq> SigHashNone
                    then Write sigHash (HashOutputs sigHashes)
                    else if hashType AND sigHashMask = SigHashSingle \<and>
                            idx < int (length (TxOut tx))
                    then Write sigHash (DoubleHashB H (WriteTxOut [] (TxOut tx ! nat idx)))
                    else Write sigHash zeroHash);
                 sigHash = Write sigHash (PutUint32 (LockTime tx));
                 sigHash = Write sigHash (PutUint32 (hashType OR SigHashForkID))
             in Inr sigHash))"

text \<open>
  The function itself: the check of lines 46 to 52, which prints and returns nil (the
  empty slice), then the buffer, then the double hash of line 131. The result type of
  the Go function is \<open>[]byte\<close> alone: it has no error value to return.
\<close>

definition calcBip143SignatureHash ::
  "(byte list \<Rightarrow> byte list) \<Rightarrow> SigHashType \<Rightarrow> int \<Rightarrow> 64 word \<Rightarrow> memory \<Rightarrow>
     (error + byte list) \<times> memory" where
  "calcBip143SignatureHash H hashType idx amt m =
     (if idx > int (length (TxIn (mem_tx m))) - 1
      then (Inr [],
            Printf (''calcBip143SignatureHash error: idx '' @ showInt idx @ '' but '' @
                    showInt (int (length (TxIn (mem_tx m)))) @ '' txins'') m)
      else case sigHashBuffer H hashType idx amt m of
             Inl e \<Rightarrow> (Inl e, m)
           | Inr sigHash \<Rightarrow> (Inr (DoubleHashB H sigHash), m))"

section \<open>RawTxInSignature\<close>

text \<open>
  \<open>key.Sign\<close> and \<open>signature.Serialize\<close> are btcec's; they are the parameters
  \<open>Sign\<close> (which returns the signature or the message of its error) and \<open>Serialize\<close>.
  The cache is a fresh object built from the transaction. \<open>byte(hashType|SigHashForkID)\<close>
  keeps the low eight bits.
\<close>

definition RawTxInSignature ::
  "(byte list \<Rightarrow> byte list) \<Rightarrow> ('key \<Rightarrow> byte list \<Rightarrow> string + 'sig) \<Rightarrow> ('sig \<Rightarrow> byte list) \<Rightarrow>
     int \<Rightarrow> SigHashType \<Rightarrow> 'key \<Rightarrow> 64 word \<Rightarrow> memory \<Rightarrow> (error + byte list) \<times> memory" where
  "RawTxInSignature H Sign Serialize idx hashType key amt m =
     (case calcBip143SignatureHash H hashType idx amt
             (m\<lparr>mem_sigHashes := NewTxSigHashes H (mem_tx m)\<rparr>) of
        (Inl e, m') \<Rightarrow> (Inl e, m')
      | (Inr hash, m') \<Rightarrow>
          (case Sign key hash of
             Inl err \<Rightarrow> (Inl (Error (''cannot sign tx input: '' @ err)), m')
           | Inr signature \<Rightarrow>
               (Inr (Serialize signature @ [ucast (hashType OR SigHashForkID)]), m')))"

section \<open>Example data\<close>

text \<open>
  The theorems below hold for every hash function \<open>H\<close>, signer and serializer. Concrete
  instances need concrete collaborators: a stand-in hash with a 32-byte result, a signer
  that succeeds, one that fails, and a serializer. The example transaction has one input
  and one output.
\<close>

definition exampleHash :: "byte list \<Rightarrow> byte list" where
  "exampleHash b = replicate 32 (of_nat (length b))"

definition exampleSign :: "byte \<Rightarrow> byte list \<Rightarrow> string + byte list" where
  "exampleSign key hash = Inr (key # hash)"

definition failingSign :: "byte \<Rightarrow> byte list \<Rightarrow> string + byte list" where
  "failingSign key hash = Inl ''no signature''"

definition exampleSerialize :: "byte list \<Rightarrow> byte list" where
  "exampleSerialize signature = 0x30 # signature"

definition exampleTx :: MsgTx where
  "exampleTx = \<lparr> Version = 2,
      TxIn = [\<lparr> PreviousOutPoint = \<lparr> Hash = replicate 32 0xaa, Index = 1 \<rparr>,
                SignatureScript = [], Sequence = 0xffffffff \<rparr>],
      TxOut = [\<lparr> Value = 1000, PkScript = [0x51] \<rparr>],
      LockTime = 0 \<rparr>"

definition exampleMemory :: memory where
  "exampleMemory = \<lparr> mem_tx = exampleTx,
      mem_sigHashes = \<lparr> HashPrevOuts = replicate 32 1, HashSequence = replicate 32 2,
                        HashOutputs = replicate 32 3 \<rparr>,
      mem_subScript = [0x76, 0xa9], mem_stdout = [] \<rparr>"

section \<open>The library functions on small inputs\<close>

lemma PutUint32_example: "PutUint32 0x12345678 = [0x78, 0x56, 0x34, 0x12]"
  by (simp add: PutUint32_def)

lemma WriteVarInt_examples:
  "WriteVarInt [] 0xfc = [0xfc]"
  "WriteVarInt [] 0xfd = [0xfd, 0xfd, 0x00]"
  "WriteVarInt [] 0x10000 = [0xfe, 0x00, 0x00, 0x01, 0x00]"
  by (simp_all add: WriteVarInt_def Write_def PutUint16_def PutUint32_def)

lemma WriteTxOut_example:
  "WriteTxOut [] \<lparr> Value = 1000, PkScript = [0x51] \<rparr> = [0xe8, 0x03, 0, 0, 0, 0, 0, 0, 0x01, 0x51]"
  by (simp add: WriteTxOut_def WriteVarBytes_def WriteVarInt_def Write_def PutUint64_def)

lemma showInt_examples: "showInt 1234 = ''1234''" "showInt (- 7) = ''-7''"
  by (simp_all add: showInt_def showNat.simps)

section \<open>The buffer for a valid index\<close>

lemma length_PutUint32: "length (PutUint32 v) = 4"
  by (simp add: PutUint32_def)

lemma length_PutUint64: "length (PutUint64 v) = 8"
  by (simp add: PutUint64_def)

lemma length_zeroHash: "length zeroHash = 32"
  by (simp add: zeroHash_def)

text \<open>
  With the index in range no index expression panics, and the writes, one after the
  other, leave the concatenation of the ten fields in the buffer.
\<close>

lemma sigHashBuffer_valid:
  assumes "0 \<le> idx" "idx < int (length (TxIn (mem_tx m)))"
  shows "sigHashBuffer H hashType idx amt m =
     Inr (PutUint32 (Version (mem_tx m)) @
          (if hashType AND SigHashAnyOneCanPay = 0 then HashPrevOuts (mem_sigHashes m) else zeroHash) @
          (if hashType AND SigHashAnyOneCanPay = 0 \<and> hashType AND sigHashMask \<noteq> SigHashSingle \<and>
              hashType AND sigHashMask \<noteq> SigHashNone
           then HashSequence (mem_sigHashes m) else zeroHash) @
          Hash (PreviousOutPoint (TxIn (mem_tx m) ! nat idx)) @
          PutUint32 (Index (PreviousOutPoint (TxIn (mem_tx m) ! nat idx))) @
          WriteVarInt [] (of_nat (length (mem_subScript m))) @ mem_subScript m @
          PutUint64 amt @
          PutUint32 (Sequence (TxIn (mem_tx m) ! nat idx)) @
          (if hashType AND SigHashSingle \<noteq> SigHashSingle \<and> hashType AND SigHashNone \<noteq> SigHashNone
           then HashOutputs (mem_sigHashes m)
           else if hashType AND sigHashMask = SigHashSingle \<and> idx < int (length (TxOut (mem_tx m)))
           then DoubleHashB H (WriteTxOut [] (TxOut (mem_tx m) ! nat idx))
           else zeroHash) @
          PutUint32 (LockTime (mem_tx m)) @
          PutUint32 (hashType OR SigHashForkID))"
  using assms
  by (simp add: sigHashBuffer_def goIndex_def Write_def WriteVarBytes_def WriteVarInt_def Let_def)

lemma calcBip143SignatureHash_valid:
  assumes "0 \<le> idx" "idx < int (length (TxIn (mem_tx m)))"
    and "sigHashBuffer H hashType idx amt m = Inr buf"
  shows "calcBip143SignatureHash H hashType idx amt m = (Inr (DoubleHashB H buf), m)"
  using assms by (simp add: calcBip143SignatureHash_def)

section \<open>An index past the last input\<close>

text \<open>
  C1 (as the code has it). For an index at or past the number of inputs the digest
  computation does not produce an error result: it appends a diagnostic to the standard
  output and returns the nil (empty) digest, and hashes nothing.
\<close>

theorem calcBip143SignatureHash_index_too_large:
  assumes "idx \<ge> int (length (TxIn (mem_tx m)))"
  shows "calcBip143SignatureHash H hashType idx amt m =
     (Inr [], m\<lparr>mem_stdout := mem_stdout m @ ''calcBip143SignatureHash error: idx '' @
        showInt idx @ '' but '' @ showInt (int (length (TxIn (mem_tx m)))) @ '' txins''\<rparr>)"
  using assms by (simp add: calcBip143SignatureHash_def Printf_def)

theorem calcBip143SignatureHash_index_too_large_witness:
  "1 \<ge> int (length (TxIn (mem_tx exampleMemory))) \<and>
   calcBip143SignatureHash exampleHash 0x41 1 5 exampleMemory =
     (Inr [], exampleMemory\<lparr>mem_stdout := ''calcBip143SignatureHash error: idx 1 but 1 txins''\<rparr>)"
  using calcBip143SignatureHash_index_too_large
    [where m = exampleMemory and idx = 1 and H = exampleHash and hashType = "0x41" and amt = 5]
  by (simp add: exampleMemory_def exampleTx_def showInt_def showNat.simps)

text \<open>
  C1 as the spec states it fails: index 1 of the one-input example transaction is out of
  range, and the call returns the empty digest as an ordinary result.
\<close>

theorem calcBip143SignatureHash_no_error_counterexample:
  "1 \<ge> int (length (TxIn (mem_tx exampleMemory))) \<and>
   fst (calcBip143SignatureHash exampleHash 0x41 1 5 exampleMemory) = Inr []"
  by (simp add: calcBip143SignatureHash_def exampleMemory_def exampleTx_def)

section \<open>A negative index\<close>

text \<open>
  C8. The check of line 48 compares the index with the upper end only. A negative index
  passes it, the index expression \<open>tx.TxIn[idx]\<close> of line 88 is out of range, and the
  call ends in the run-time panic; no branch returns for the lower end.
\<close>

theorem calcBip143SignatureHash_negative_index:
  assumes "idx < 0"
  shows "\<not> idx > int (length (TxIn (mem_tx m))) - 1 \<and>
         goIndex (TxIn (mem_tx m)) idx = Inl PanicIndexOutOfRange \<and>
         calcBip143SignatureHash H hashType idx amt m = (Inl PanicIndexOutOfRange, m)"
  using assms by (simp add: calcBip143SignatureHash_def sigHashBuffer_def goIndex_def Let_def)

theorem calcBip143SignatureHash_negative_index_witness:
  "(-1 :: int) < 0 \<and>
   calcBip143SignatureHash exampleHash 0x41 (-1) 5 exampleMemory =
     (Inl PanicIndexOutOfRange, exampleMemory)"
  using calcBip143SignatureHash_negative_index
    [where m = exampleMemory and idx = "-1" and H = exampleHash and hashType = "0x41" and amt = 5]
  by simp

section \<open>The inputs are not written\<close>

text \<open>
  C10. Whatever the arguments, and however the call ends, the transaction, the three
  cached hashes and the script code in memory after the call are those before it. (The
  standard output is the one part of the memory the function touches.)
\<close>

theorem calcBip143SignatureHash_frame:
  "mem_tx (snd (calcBip143SignatureHash H hashType idx amt m)) = mem_tx m \<and>
   mem_sigHashes (snd (calcBip143SignatureHash H hashType idx amt m)) = mem_sigHashes m \<and>
   mem_subScript (snd (calcBip143SignatureHash H hashType idx amt m)) = mem_subScript m"
  by (simp add: calcBip143SignatureHash_def Printf_def split: sum.split)

section \<open>The layout of the preimage\<close>

text \<open>
  The bytes that the encoders store, written out: byte \<open>k\<close> of a little-endian field
  is the value divided by \<open>256 ^ k\<close>, modulo 256. The length prefix is one byte below
  0xfd, and otherwise a marker and the length in 2, 4 or 8 little-endian bytes.
\<close>

lemma ucast_drop_bit_byte:
  "(ucast (drop_bit n v) :: byte) = of_nat (unat v div 2 ^ n mod 256)" for v :: "'a::len word"
proof -
  have "unat (drop_bit n v) = unat v div 2 ^ n"
    unfolding unat_drop_bit_eq by (rule drop_bit_eq_div)
  then have "unat (ucast (drop_bit n v) :: byte) = unat v div 2 ^ n mod 256"
    by (simp only: unsigned_ucast_eq take_bit_eq_mod) simp
  moreover have "unat (of_nat (unat v div 2 ^ n mod 256) :: byte) = unat v div 2 ^ n mod 256"
    by (simp add: unat_of_nat)
  ultimately show ?thesis
    by (simp add: word_unat_eq_iff)
qed

lemma PutUint32_bytes:
  "PutUint32 v = [of_nat (unat v mod 256), of_nat (unat v div 256 mod 256),
                  of_nat (unat v div 256 ^ 2 mod 256), of_nat (unat v div 256 ^ 3 mod 256)]"
  using ucast_drop_bit_byte [of 0 v] ucast_drop_bit_byte [of 8 v]
        ucast_drop_bit_byte [of 16 v] ucast_drop_bit_byte [of 24 v]
  by (simp add: PutUint32_def)

lemma PutUint64_bytes:
  "PutUint64 v = [of_nat (unat v mod 256), of_nat (unat v div 256 mod 256),
                  of_nat (unat v div 256 ^ 2 mod 256), of_nat (unat v div 256 ^ 3 mod 256),
                  of_nat (unat v div 256 ^ 4 mod 256), of_nat (unat v div 256 ^ 5 mod 256),
                  of_nat (unat v div 256 ^ 6 mod 256), of_nat (unat v div 256 ^ 7 mod 256)]"
  using ucast_drop_bit_byte [of 0 v] ucast_drop_bit_byte [of 8 v]
        ucast_drop_bit_byte [of 16 v] ucast_drop_bit_byte [of 24 v]
        ucast_drop_bit_byte [of 32 v] ucast_drop_bit_byte [of 40 v]
        ucast_drop_bit_byte [of 48 v] ucast_drop_bit_byte [of 56 v]
  by (simp add: PutUint64_def)

lemma PutUint16_bytes:
  "PutUint16 v = [of_nat (unat v mod 256), of_nat (unat v div 256 mod 256)]"
  using ucast_drop_bit_byte [of 0 v] ucast_drop_bit_byte [of 8 v]
  by (simp add: PutUint16_def)

lemma WriteVarInt_bytes:
  assumes "n < 2 ^ 64"
  shows "WriteVarInt [] (of_nat n) =
     (if n < 0xfd then [of_nat n]
      else if n \<le> 0xffff then [0xfd, of_nat (n mod 256), of_nat (n div 256 mod 256)]
      else if n \<le> 0xffffffff
      then [0xfe, of_nat (n mod 256), of_nat (n div 256 mod 256),
            of_nat (n div 256 ^ 2 mod 256), of_nat (n div 256 ^ 3 mod 256)]
      else [0xff, of_nat (n mod 256), of_nat (n div 256 mod 256),
            of_nat (n div 256 ^ 2 mod 256), of_nat (n div 256 ^ 3 mod 256),
            of_nat (n div 256 ^ 4 mod 256), of_nat (n div 256 ^ 5 mod 256),
            of_nat (n div 256 ^ 6 mod 256), of_nat (n div 256 ^ 7 mod 256)])"
proof -
  have u: "unat (of_nat n :: 64 word) = n"
    using assms by (simp add: unat_of_nat)
  have c1: "((of_nat n :: 64 word) < 0xfd) = (n < 0xfd)"
    by (simp add: word_less_nat_alt u)
  have c2: "((of_nat n :: 64 word) \<le> 0xffff) = (n \<le> 0xffff)"
    by (simp add: word_le_nat_alt u)
  have c3: "((of_nat n :: 64 word) \<le> 0xffffffff) = (n \<le> 0xffffffff)"
    by (simp add: word_le_nat_alt u)
  have u16: "n \<le> 0xffff \<Longrightarrow> unat (ucast (of_nat n :: 64 word) :: 16 word) = n"
    by (simp add: unsigned_ucast_eq u take_bit_eq_mod)
  have u32: "n \<le> 0xffffffff \<Longrightarrow> unat (ucast (of_nat n :: 64 word) :: 32 word) = n"
    by (simp add: unsigned_ucast_eq u take_bit_eq_mod)
  have "unat (ucast (of_nat n :: 64 word) :: byte) = n mod 256"
    by (simp only: unsigned_ucast_eq u take_bit_eq_mod) simp
  then have b: "(ucast (of_nat n :: 64 word) :: byte) = of_nat n"
    by (simp add: word_unat_eq_iff unat_of_nat)
  show ?thesis
    unfolding WriteVarInt_def Write_def c1 c2 c3 PutUint16_bytes PutUint32_bytes PutUint64_bytes
    using u u16 u32 b by simp
qed

text \<open>
  C2. For a valid index the digest returned is the double hash of the buffer, and the
  buffer is, byte for byte and in this order: the version in 4 little-endian bytes; a
  32-byte slot for the previous outputs; a 32-byte slot for the sequence numbers; the
  hash of the outpoint spent and its index in 4 little-endian bytes; the length of the
  script code as a variable-length integer and the script code; the amount in 8
  little-endian bytes; the sequence number of the input in 4; a 32-byte slot for the
  outputs; the lock time in 4; the sighash-type word in 4. The three slots are 32 bytes
  long when the cached hashes and the results of the hash function are. The length of a
  Go slice is an int, so the script code is shorter than \<open>2 ^ 63\<close> bytes.
\<close>

theorem calcBip143SignatureHash_preimage_layout:
  assumes "0 \<le> idx" "idx < int (length (TxIn (mem_tx m)))"
    and "length (HashPrevOuts (mem_sigHashes m)) = 32"
    and "length (HashSequence (mem_sigHashes m)) = 32"
    and "length (HashOutputs (mem_sigHashes m)) = 32"
    and "\<And>b. length (H b) = 32"
    and "length (mem_subScript m) < 2 ^ 63"
  shows "let txin = TxIn (mem_tx m) ! nat idx;
             ver = unat (Version (mem_tx m));
             opIndex = unat (Index (PreviousOutPoint txin));
             n = length (mem_subScript m);
             amount = unat amt;
             seqNo = unat (Sequence txin);
             lockTime = unat (LockTime (mem_tx m));
             typeWord = unat (hashType OR 0x40)
         in \<exists>prevOuts seqs outs buf.
           length prevOuts = 32 \<and> length seqs = 32 \<and> length outs = 32 \<and>
           buf = [of_nat (ver mod 256), of_nat (ver div 256 mod 256),
                  of_nat (ver div 256 ^ 2 mod 256), of_nat (ver div 256 ^ 3 mod 256)] @
                 prevOuts @ seqs @
                 Hash (PreviousOutPoint txin) @
                 [of_nat (opIndex mod 256), of_nat (opIndex div 256 mod 256),
                  of_nat (opIndex div 256 ^ 2 mod 256), of_nat (opIndex div 256 ^ 3 mod 256)] @
                 (if n < 0xfd then [of_nat n]
                  else if n \<le> 0xffff then [0xfd, of_nat (n mod 256), of_nat (n div 256 mod 256)]
                  else if n \<le> 0xffffffff
                  then [0xfe, of_nat (n mod 256), of_nat (n div 256 mod 256),
                        of_nat (n div 256 ^ 2 mod 256), of_nat (n div 256 ^ 3 mod 256)]
                  else [0xff, of_nat (n mod 256), of_nat (n div 256 mod 256),
                        of_nat (n div 256 ^ 2 mod 256), of_nat (n div 256 ^ 3 mod 256),
                        of_nat (n div 256 ^ 4 mod 256), of_nat (n div 256 ^ 5 mod 256),
                        of_nat (n div 256 ^ 6 mod 256), of_nat (n div 256 ^ 7 mod 256)]) @
                 mem_subScript m @
                 [of_nat (amount mod 256), of_nat (amount div 256 mod 256),
                  of_nat (amount div 256 ^ 2 mod 256), of_nat (amount div 256 ^ 3 mod 256),
                  of_nat (amount div 256 ^ 4 mod 256), of_nat (amount div 256 ^ 5 mod 256),
                  of_nat (amount div 256 ^ 6 mod 256), of_nat (amount div 256 ^ 7 mod 256)] @
                 [of_nat (seqNo mod 256), of_nat (seqNo div 256 mod 256),
                  of_nat (seqNo div 256 ^ 2 mod 256), of_nat (seqNo div 256 ^ 3 mod 256)] @
                 outs @
                 [of_nat (lockTime mod 256), of_nat (lockTime div 256 mod 256),
                  of_nat (lockTime div 256 ^ 2 mod 256), of_nat (lockTime div 256 ^ 3 mod 256)] @
                 [of_nat (typeWord mod 256), of_nat (typeWord div 256 mod 256),
                  of_nat (typeWord div 256 ^ 2 mod 256), of_nat (typeWord div 256 ^ 3 mod 256)] \<and>
           sigHashBuffer H hashType idx amt m = Inr buf \<and>
           calcBip143SignatureHash H hashType idx amt m = (Inr (DoubleHashB H buf), m)"
proof -
  define prevOuts where "prevOuts =
    (if hashType AND SigHashAnyOneCanPay = 0 then HashPrevOuts (mem_sigHashes m) else zeroHash)"
  define seqs where "seqs =
    (if hashType AND SigHashAnyOneCanPay = 0 \<and> hashType AND sigHashMask \<noteq> SigHashSingle \<and>
        hashType AND sigHashMask \<noteq> SigHashNone
     then HashSequence (mem_sigHashes m) else zeroHash)"
  define outs where "outs =
    (if hashType AND SigHashSingle \<noteq> SigHashSingle \<and> hashType AND SigHashNone \<noteq> SigHashNone
     then HashOutputs (mem_sigHashes m)
     else if hashType AND sigHashMask = SigHashSingle \<and> idx < int (length (TxOut (mem_tx m)))
     then DoubleHashB H (WriteTxOut [] (TxOut (mem_tx m) ! nat idx))
     else zeroHash)"
  define buf where "buf = PutUint32 (Version (mem_tx m)) @ prevOuts @ seqs @
                 Hash (PreviousOutPoint (TxIn (mem_tx m) ! nat idx)) @
                 PutUint32 (Index (PreviousOutPoint (TxIn (mem_tx m) ! nat idx))) @
                 WriteVarInt [] (of_nat (length (mem_subScript m))) @ mem_subScript m @
                 PutUint64 amt @
                 PutUint32 (Sequence (TxIn (mem_tx m) ! nat idx)) @
                 outs @
                 PutUint32 (LockTime (mem_tx m)) @
                 PutUint32 (hashType OR 0x40)"
  have l1: "length prevOuts = 32"
    using assms(3) by (simp add: prevOuts_def length_zeroHash)
  have l2: "length seqs = 32"
    using assms(4) by (simp add: seqs_def length_zeroHash)
  have l3: "length outs = 32"
    using assms(5,6) by (simp add: outs_def length_zeroHash DoubleHashB_def)
  have b: "sigHashBuffer H hashType idx amt m = Inr buf"
    unfolding sigHashBuffer_valid [OF assms(1,2)] buf_def prevOuts_def seqs_def outs_def
      SigHashForkID_def by (rule refl)
  have c: "calcBip143SignatureHash H hashType idx amt m = (Inr (DoubleHashB H buf), m)"
    using calcBip143SignatureHash_valid [OF assms(1,2) b] .
  have n: "length (mem_subScript m) < 2 ^ 64"
    using assms(7) by simp
  note bytes = buf_def [unfolded PutUint32_bytes PutUint64_bytes WriteVarInt_bytes [OF n]]
  from l1 l2 l3 b c bytes show ?thesis
    unfolding Let_def by blast
qed

theorem calcBip143SignatureHash_preimage_layout_witness:
  "(0::int) \<le> 0 \<and> 0 < int (length (TxIn (mem_tx exampleMemory))) \<and>
   length (HashPrevOuts (mem_sigHashes exampleMemory)) = 32 \<and>
   length (HashSequence (mem_sigHashes exampleMemory)) = 32 \<and>
   length (HashOutputs (mem_sigHashes exampleMemory)) = 32 \<and>
   length (mem_subScript exampleMemory) < 2 ^ 63 \<and>
   (\<exists>prevOuts seqs outs buf.
           length prevOuts = 32 \<and> length seqs = 32 \<and> length outs = 32 \<and>
           buf = [2, 0, 0, 0] @ prevOuts @ seqs @ replicate 32 0xaa @ [1, 0, 0, 0] @
                 [2] @ [0x76, 0xa9] @ [5, 0, 0, 0, 0, 0, 0, 0] @ [0xff, 0xff, 0xff, 0xff] @
                 outs @ [0, 0, 0, 0] @ [0x41, 0, 0, 0] \<and>
           sigHashBuffer exampleHash 0x41 0 5 exampleMemory = Inr buf \<and>
           calcBip143SignatureHash exampleHash 0x41 0 5 exampleMemory =
             (Inr (DoubleHashB exampleHash buf), exampleMemory)) \<and>
   sigHashBuffer exampleHash 0x41 0 5 exampleMemory =
     Inr ([2, 0, 0, 0] @ replicate 32 1 @ replicate 32 2 @ replicate 32 0xaa @ [1, 0, 0, 0] @
          [2] @ [0x76, 0xa9] @ [5, 0, 0, 0, 0, 0, 0, 0] @ [0xff, 0xff, 0xff, 0xff] @
          replicate 32 3 @ [0, 0, 0, 0] @ [0x41, 0, 0, 0])"
proof -
  have full: "sigHashBuffer exampleHash 0x41 0 5 exampleMemory =
     Inr ([2, 0, 0, 0] @ replicate 32 1 @ replicate 32 2 @ replicate 32 0xaa @ [1, 0, 0, 0] @
          [2] @ [0x76, 0xa9] @ [5, 0, 0, 0, 0, 0, 0, 0] @ [0xff, 0xff, 0xff, 0xff] @
          replicate 32 3 @ [0, 0, 0, 0] @ [0x41, 0, 0, 0])"
    by (simp add: sigHashBuffer_def goIndex_def Write_def WriteVarBytes_def WriteVarInt_def
      PutUint32_def PutUint64_def zeroHash_def exampleMemory_def exampleTx_def
      SigHashSingle_def SigHashNone_def SigHashAnyOneCanPay_def sigHashMask_def SigHashForkID_def)
  have "(0::int) \<le> 0 \<and> 0 < int (length (TxIn (mem_tx exampleMemory))) \<and>
   length (HashPrevOuts (mem_sigHashes exampleMemory)) = 32 \<and>
   length (HashSequence (mem_sigHashes exampleMemory)) = 32 \<and>
   length (HashOutputs (mem_sigHashes exampleMemory)) = 32 \<and>
   length (mem_subScript exampleMemory) < 2 ^ 63 \<and>
   (\<exists>prevOuts seqs outs buf.
           length prevOuts = 32 \<and> length seqs = 32 \<and> length outs = 32 \<and>
           buf = [2, 0, 0, 0] @ prevOuts @ seqs @ replicate 32 0xaa @ [1, 0, 0, 0] @
                 [2] @ [0x76, 0xa9] @ [5, 0, 0, 0, 0, 0, 0, 0] @ [0xff, 0xff, 0xff, 0xff] @
                 outs @ [0, 0, 0, 0] @ [0x41, 0, 0, 0] \<and>
           sigHashBuffer exampleHash 0x41 0 5 exampleMemory = Inr buf \<and>
           calcBip143SignatureHash exampleHash 0x41 0 5 exampleMemory =
             (Inr (DoubleHashB exampleHash buf), exampleMemory))"
    using calcBip143SignatureHash_preimage_layout
      [where m = exampleMemory and idx = 0 and H = exampleHash and hashType = "0x41" and amt = 5]
    by (simp add: exampleMemory_def exampleTx_def exampleHash_def Let_def)
  with full show ?thesis by blast
qed

section \<open>The previous-outputs slot and the sequence-numbers slot\<close>

text \<open>
  C6. The 32 bytes of the buffer after the version are the cached HashPrevOuts when
  the ANYONECANPAY bit of the sighash type is clear, and 32 zero bytes when it is set.
\<close>

theorem hashPrevOuts_slot:
  assumes "0 \<le> idx" "idx < int (length (TxIn (mem_tx m)))"
    and "length (HashPrevOuts (mem_sigHashes m)) = 32"
  shows "\<exists>buf. sigHashBuffer H hashType idx amt m = Inr buf \<and>
           calcBip143SignatureHash H hashType idx amt m = (Inr (DoubleHashB H buf), m) \<and>
           take 32 (drop 4 buf) =
             (if hashType AND SigHashAnyOneCanPay = 0 then HashPrevOuts (mem_sigHashes m)
              else replicate 32 0)"
proof -
  obtain buf where buf: "sigHashBuffer H hashType idx amt m = Inr buf"
    using sigHashBuffer_valid [OF assms(1,2)] by blast
  have calc: "calcBip143SignatureHash H hashType idx amt m = (Inr (DoubleHashB H buf), m)"
    using calcBip143SignatureHash_valid [OF assms(1,2) buf] .
  have "take 32 (drop 4 buf) =
          (if hashType AND SigHashAnyOneCanPay = 0 then HashPrevOuts (mem_sigHashes m)
           else replicate 32 0)"
    using buf assms(3) unfolding sigHashBuffer_valid [OF assms(1,2)]
    by (auto simp add: length_PutUint32 zeroHash_def)
  with buf calc show ?thesis by blast
qed

theorem hashPrevOuts_slot_witness:
  "(0::int) \<le> 0 \<and> 0 < int (length (TxIn (mem_tx exampleMemory))) \<and>
   length (HashPrevOuts (mem_sigHashes exampleMemory)) = 32 \<and>
   (\<exists>buf. sigHashBuffer exampleHash 0xc1 0 5 exampleMemory = Inr buf \<and>
         calcBip143SignatureHash exampleHash 0xc1 0 5 exampleMemory =
           (Inr (DoubleHashB exampleHash buf), exampleMemory) \<and>
         take 32 (drop 4 buf) = replicate 32 0)"
  using hashPrevOuts_slot
    [where m = exampleMemory and idx = 0 and H = exampleHash and hashType = "0xc1" and amt = 5]
  by (simp add: exampleMemory_def exampleTx_def SigHashAnyOneCanPay_def)

text \<open>
  C7. The next 32 bytes are the cached HashSequence when the ANYONECANPAY bit is clear
  and the base type (the low five bits) is neither SINGLE nor NONE, and 32 zero bytes in
  every other case.
\<close>

theorem hashSequence_slot:
  assumes "0 \<le> idx" "idx < int (length (TxIn (mem_tx m)))"
    and "length (HashPrevOuts (mem_sigHashes m)) = 32"
    and "length (HashSequence (mem_sigHashes m)) = 32"
  shows "\<exists>buf. sigHashBuffer H hashType idx amt m = Inr buf \<and>
           calcBip143SignatureHash H hashType idx amt m = (Inr (DoubleHashB H buf), m) \<and>
           take 32 (drop 36 buf) =
             (if hashType AND SigHashAnyOneCanPay = 0 \<and>
                 hashType AND 0x1f \<noteq> SigHashSingle \<and> hashType AND 0x1f \<noteq> SigHashNone
              then HashSequence (mem_sigHashes m)
              else replicate 32 0)"
proof -
  obtain buf where buf: "sigHashBuffer H hashType idx amt m = Inr buf"
    using sigHashBuffer_valid [OF assms(1,2)] by blast
  have calc: "calcBip143SignatureHash H hashType idx amt m = (Inr (DoubleHashB H buf), m)"
    using calcBip143SignatureHash_valid [OF assms(1,2) buf] .
  have "take 32 (drop 36 buf) =
          (if hashType AND SigHashAnyOneCanPay = 0 \<and>
              hashType AND 0x1f \<noteq> SigHashSingle \<and> hashType AND 0x1f \<noteq> SigHashNone
           then HashSequence (mem_sigHashes m)
           else replicate 32 0)"
    using buf assms(3,4) unfolding sigHashBuffer_valid [OF assms(1,2)]
    by (auto simp add: length_PutUint32 zeroHash_def sigHashMask_def)
  with buf calc show ?thesis by blast
qed

theorem hashSequence_slot_witness:
  "(0::int) \<le> 0 \<and> 0 < int (length (TxIn (mem_tx exampleMemory))) \<and>
   length (HashPrevOuts (mem_sigHashes exampleMemory)) = 32 \<and>
   length (HashSequence (mem_sigHashes exampleMemory)) = 32 \<and>
   (\<exists>buf. sigHashBuffer exampleHash 0x41 0 5 exampleMemory = Inr buf \<and>
         calcBip143SignatureHash exampleHash 0x41 0 5 exampleMemory =
           (Inr (DoubleHashB exampleHash buf), exampleMemory) \<and>
         take 32 (drop 36 buf) = replicate 32 2)"
  using hashSequence_slot
    [where m = exampleMemory and idx = 0 and H = exampleHash and hashType = "0x41" and amt = 5]
  by (simp add: exampleMemory_def exampleTx_def SigHashAnyOneCanPay_def SigHashSingle_def
      SigHashNone_def)

section \<open>The outputs slot\<close>

text \<open>
  Lines 111 and 112 test the sighash type against SigHashSingle and SigHashNone
  themselves, not its base type: \<open>hashType&SigHashSingle != SigHashSingle &&
  hashType&SigHashNone != SigHashNone\<close> holds exactly when bit 1 of the type is clear.
\<close>

lemma and_2_eq_2_iff: "(w AND 2 = 2) = bit w 1" for w :: "32 word"
proof
  assume a: "w AND 2 = 2"
  have "bit (w AND 2) 1 = bit (2 :: 32 word) 1" using a by simp
  then show "bit w 1" by (simp add: bit_and_iff)
next
  assume "bit w 1"
  then show "w AND 2 = 2"
    by (intro bit_eqI) (auto simp add: bit_and_iff bit_2_iff)
qed

lemma and_3_eq_3_bit: "w AND 3 = 3 \<Longrightarrow> bit w 1" for w :: "32 word"
proof -
  assume a: "w AND 3 = 3"
  have "bit (w AND 3) 1 = bit (3 :: 32 word) 1" using a by simp
  then show ?thesis by (simp add: bit_and_iff)
qed

lemma outputs_condition:
  "(hashType AND SigHashSingle \<noteq> SigHashSingle \<and> hashType AND SigHashNone \<noteq> SigHashNone)
   = (\<not> bit hashType 1)"
  unfolding SigHashSingle_def SigHashNone_def
  using and_2_eq_2_iff [of hashType] and_3_eq_3_bit [of hashType] by auto

text \<open>
  On the three defined base types (ALL = 1, NONE = 2, SINGLE = 3) the test of the code
  and the test on the base type agree.
\<close>

lemma outputs_condition_defined_base_types:
  assumes "hashType AND 0x1f = 1 \<or> hashType AND 0x1f = SigHashNone \<or>
           hashType AND 0x1f = SigHashSingle"
  shows "(hashType AND SigHashSingle \<noteq> SigHashSingle \<and> hashType AND SigHashNone \<noteq> SigHashNone)
       = (hashType AND 0x1f \<noteq> SigHashSingle \<and> hashType AND 0x1f \<noteq> SigHashNone)"
proof -
  have "bit (hashType AND 0x1f) 1 = bit hashType 1"
    by (simp add: bit_and_iff)
  with assms show ?thesis
    unfolding outputs_condition by (auto simp add: SigHashSingle_def SigHashNone_def)
qed

text \<open>
  What the code writes into the outputs slot (the 32 bytes before the last 8 of the
  buffer): the cached HashOutputs when the test above holds; the double hash of the
  output at the index when the base type is SINGLE and the index is within the outputs;
  32 zero bytes otherwise, and never a panic.
\<close>

lemma outputs_slot_code:
  assumes "0 \<le> idx" "idx < int (length (TxIn (mem_tx m)))"
    and "length (HashOutputs (mem_sigHashes m)) = 32"
    and "\<And>b. length (H b) = 32"
  shows "\<exists>buf. sigHashBuffer H hashType idx amt m = Inr buf \<and>
           take 32 (drop (length buf - 40) buf) =
             (if hashType AND SigHashSingle \<noteq> SigHashSingle \<and> hashType AND SigHashNone \<noteq> SigHashNone
              then HashOutputs (mem_sigHashes m)
              else if hashType AND 0x1f = SigHashSingle \<and> idx < int (length (TxOut (mem_tx m)))
              then DoubleHashB H (WriteTxOut [] (TxOut (mem_tx m) ! nat idx))
              else replicate 32 0)"
proof -
  define outs where "outs =
    (if hashType AND SigHashSingle \<noteq> SigHashSingle \<and> hashType AND SigHashNone \<noteq> SigHashNone
     then HashOutputs (mem_sigHashes m)
     else if hashType AND sigHashMask = SigHashSingle \<and> idx < int (length (TxOut (mem_tx m)))
     then DoubleHashB H (WriteTxOut [] (TxOut (mem_tx m) ! nat idx))
     else zeroHash)"
  define pre where "pre =
     PutUint32 (Version (mem_tx m)) @
     (if hashType AND SigHashAnyOneCanPay = 0 then HashPrevOuts (mem_sigHashes m) else zeroHash) @
     (if hashType AND SigHashAnyOneCanPay = 0 \<and> hashType AND sigHashMask \<noteq> SigHashSingle \<and>
         hashType AND sigHashMask \<noteq> SigHashNone
      then HashSequence (mem_sigHashes m) else zeroHash) @
     Hash (PreviousOutPoint (TxIn (mem_tx m) ! nat idx)) @
     PutUint32 (Index (PreviousOutPoint (TxIn (mem_tx m) ! nat idx))) @
     WriteVarInt [] (of_nat (length (mem_subScript m))) @ mem_subScript m @
     PutUint64 amt @
     PutUint32 (Sequence (TxIn (mem_tx m) ! nat idx))"
  define post where "post = PutUint32 (LockTime (mem_tx m)) @ PutUint32 (hashType OR SigHashForkID)"
  have l: "length outs = 32"
    using assms(3,4) by (simp add: outs_def length_zeroHash DoubleHashB_def)
  have lp: "length post = 8"
    by (simp add: post_def length_PutUint32)
  have b: "sigHashBuffer H hashType idx amt m = Inr (pre @ outs @ post)"
    unfolding sigHashBuffer_valid [OF assms(1,2)] pre_def outs_def post_def append_assoc
    by (rule refl)
  have "take 32 (drop (length (pre @ outs @ post) - 40) (pre @ outs @ post)) = outs"
    using l lp by simp
  moreover have "outs =
     (if hashType AND SigHashSingle \<noteq> SigHashSingle \<and> hashType AND SigHashNone \<noteq> SigHashNone
      then HashOutputs (mem_sigHashes m)
      else if hashType AND 0x1f = SigHashSingle \<and> idx < int (length (TxOut (mem_tx m)))
      then DoubleHashB H (WriteTxOut [] (TxOut (mem_tx m) ! nat idx))
      else replicate 32 0)"
    unfolding outs_def sigHashMask_def zeroHash_def by (rule refl)
  ultimately show ?thesis
    using b by (metis (no_types))
qed

text \<open>
  C3 (where the code departs from it). The sighash type 0x46 has base type 6, which is
  neither SINGLE nor NONE, so the claim puts the cached HashOutputs into the slot. Bit 1
  of 0x46 is set, so the code does not; the base type is not SINGLE either, and the slot
  is 32 zero bytes.
\<close>

theorem outputs_slot_base_type_6:
  "(0x46 :: SigHashType) AND 0x1f \<noteq> SigHashSingle \<and>
   (0x46 :: SigHashType) AND 0x1f \<noteq> SigHashNone \<and>
   (case sigHashBuffer exampleHash 0x46 0 5 exampleMemory of
      Inl e \<Rightarrow> False
    | Inr buf \<Rightarrow> take 32 (drop (length buf - 40) buf) = replicate 32 0 \<and>
                 take 32 (drop (length buf - 40) buf) \<noteq> HashOutputs (mem_sigHashes exampleMemory))"
  by (simp add: sigHashBuffer_def goIndex_def Write_def WriteVarBytes_def WriteVarInt_def
      PutUint32_def PutUint64_def zeroHash_def exampleMemory_def exampleTx_def
      SigHashSingle_def SigHashNone_def SigHashAnyOneCanPay_def sigHashMask_def SigHashForkID_def)

section \<open>The fork identifier\<close>

lemma RawTxInSignature_returns:
  assumes "calcBip143SignatureHash H hashType idx amt
             (m\<lparr>mem_sigHashes := NewTxSigHashes H (mem_tx m)\<rparr>) = (Inr hash, m')"
  shows "RawTxInSignature H Sign Serialize idx hashType key amt m =
           (case Sign key hash of
              Inl err \<Rightarrow> Inl (Error (''cannot sign tx input: '' @ err))
            | Inr signature \<Rightarrow> Inr (Serialize signature @ [ucast (hashType OR SigHashForkID)]),
            m')"
  using assms by (simp add: RawTxInSignature_def split: sum.split)

lemma example_digest:
  "calcBip143SignatureHash exampleHash 0x01 0 5
     (exampleMemory\<lparr>mem_sigHashes := NewTxSigHashes exampleHash (mem_tx exampleMemory)\<rparr>) =
   (Inr (replicate 32 32),
    exampleMemory\<lparr>mem_sigHashes := NewTxSigHashes exampleHash (mem_tx exampleMemory)\<rparr>)"
  by (simp add: calcBip143SignatureHash_def sigHashBuffer_def goIndex_def DoubleHashB_def
      exampleHash_def exampleMemory_def exampleTx_def Let_def)

text \<open>
  C4. Whatever sighash type the caller passes, the flag 0x40 is on in both places. For a
  valid index the last four bytes of the buffer hashed are the little-endian word
  \<open>hashType OR 0x40\<close>. Whenever the digest computation returns and the signer
  succeeds, the signature returned is the serialized signature followed by one byte,
  the low eight bits of \<open>hashType OR 0x40\<close>, which are the low eight bits of the type
  with the flag on. Bit 6 is set in the word and in the byte.
\<close>

theorem fork_id_forced:
  "(0 \<le> idx \<and> idx < int (length (TxIn (mem_tx m))) \<longrightarrow>
      (\<exists>buf. sigHashBuffer H hashType idx amt m = Inr buf \<and>
             calcBip143SignatureHash H hashType idx amt m = (Inr (DoubleHashB H buf), m) \<and>
             4 \<le> length buf \<and>
             drop (length buf - 4) buf = PutUint32 (hashType OR 0x40))) \<and>
   (\<forall>hash m' signature.
      calcBip143SignatureHash H hashType idx amt
        (m\<lparr>mem_sigHashes := NewTxSigHashes H (mem_tx m)\<rparr>) = (Inr hash, m') \<and>
      Sign key hash = Inr signature \<longrightarrow>
      RawTxInSignature H Sign Serialize idx hashType key amt m =
        (Inr (Serialize signature @ [ucast (hashType OR 0x40)]), m')) \<and>
   bit (hashType OR 0x40) 6 \<and>
   bit (ucast (hashType OR 0x40) :: byte) 6 \<and>
   (ucast (hashType OR 0x40) :: byte) = ucast hashType OR 0x40"
proof (intro conjI impI allI)
  assume v: "0 \<le> idx \<and> idx < int (length (TxIn (mem_tx m)))"
  then obtain pre where b: "sigHashBuffer H hashType idx amt m =
      Inr (pre @ PutUint32 (hashType OR SigHashForkID))"
    using sigHashBuffer_valid [of idx m H hashType amt]
    unfolding append_assoc [symmetric] by blast
  have c: "calcBip143SignatureHash H hashType idx amt m =
      (Inr (DoubleHashB H (pre @ PutUint32 (hashType OR SigHashForkID))), m)"
    using v calcBip143SignatureHash_valid [OF _ _ b] by simp
  have "drop (length (pre @ PutUint32 (hashType OR SigHashForkID)) - 4)
          (pre @ PutUint32 (hashType OR SigHashForkID)) = PutUint32 (hashType OR 0x40)"
    by (simp add: length_PutUint32 SigHashForkID_def)
  moreover have "4 \<le> length (pre @ PutUint32 (hashType OR SigHashForkID))"
    by (simp add: length_PutUint32)
  ultimately show "\<exists>buf. sigHashBuffer H hashType idx amt m = Inr buf \<and>
             calcBip143SignatureHash H hashType idx amt m = (Inr (DoubleHashB H buf), m) \<and>
             4 \<le> length buf \<and>
             drop (length buf - 4) buf = PutUint32 (hashType OR 0x40)"
    using b c by blast
next
  fix hash m' signature
  assume a: "calcBip143SignatureHash H hashType idx amt
        (m\<lparr>mem_sigHashes := NewTxSigHashes H (mem_tx m)\<rparr>) = (Inr hash, m') \<and>
      Sign key hash = Inr signature"
  show "RawTxInSignature H Sign Serialize idx hashType key amt m =
        (Inr (Serialize signature @ [ucast (hashType OR 0x40)]), m')"
    using a RawTxInSignature_returns [of H hashType idx amt m hash m' Sign Serialize key]
    by (simp add: SigHashForkID_def)
next
  show "bit (hashType OR 0x40) 6" by (simp add: bit_or_iff)
next
  show "bit (ucast (hashType OR 0x40) :: byte) 6" by (simp add: bit_ucast_iff bit_or_iff)
next
  show "(ucast (hashType OR 0x40) :: byte) = ucast hashType OR 0x40"
    by (simp add: unsigned_or_eq)
qed

text \<open>An instance: the caller passes the type 0x01, without the flag.\<close>

theorem fork_id_forced_witness:
  "(0::int) \<le> 0 \<and> 0 < int (length (TxIn (mem_tx exampleMemory))) \<and>
   (\<exists>buf. sigHashBuffer exampleHash 0x01 0 5 exampleMemory = Inr buf \<and>
          drop (length buf - 4) buf = [0x41, 0, 0, 0]) \<and>
   exampleSign 7 (replicate 32 32) = Inr (7 # replicate 32 32) \<and>
   fst (RawTxInSignature exampleHash exampleSign exampleSerialize 0 0x01 7 5 exampleMemory) =
     Inr (0x30 # 7 # replicate 32 32 @ [0x41])"
proof -
  note t = fork_id_forced
    [where m = exampleMemory and idx = 0 and H = exampleHash and hashType = "0x01" and amt = 5
       and Sign = exampleSign and Serialize = exampleSerialize and key = 7]
  have v: "(0::int) \<le> 0 \<and> 0 < int (length (TxIn (mem_tx exampleMemory)))"
    by (simp add: exampleMemory_def exampleTx_def)
  from t v have "\<exists>buf. sigHashBuffer exampleHash 0x01 0 5 exampleMemory = Inr buf \<and>
      calcBip143SignatureHash exampleHash 0x01 0 5 exampleMemory =
        (Inr (DoubleHashB exampleHash buf), exampleMemory) \<and>
      4 \<le> length buf \<and> drop (length buf - 4) buf = PutUint32 (0x01 OR 0x40)"
    by blast
  then have p1: "\<exists>buf. sigHashBuffer exampleHash 0x01 0 5 exampleMemory = Inr buf \<and>
          drop (length buf - 4) buf = [0x41, 0, 0, 0]"
    by (auto simp add: PutUint32_def)
  have s: "exampleSign 7 (replicate 32 32) = Inr (7 # replicate 32 32)"
    by (simp add: exampleSign_def)
  from t example_digest s
  have "RawTxInSignature exampleHash exampleSign exampleSerialize 0 0x01 7 5 exampleMemory =
        (Inr (exampleSerialize (7 # replicate 32 32) @ [ucast ((0x01 :: SigHashType) OR 0x40)]),
         exampleMemory\<lparr>mem_sigHashes := NewTxSigHashes exampleHash (mem_tx exampleMemory)\<rparr>)"
    by blast
  then have p2:
    "fst (RawTxInSignature exampleHash exampleSign exampleSerialize 0 0x01 7 5 exampleMemory) =
       Inr (0x30 # 7 # replicate 32 32 @ [0x41])"
    by (simp add: exampleSerialize_def)
  from v p1 s p2 show ?thesis by blast
qed

section \<open>The results of RawTxInSignature\<close>

text \<open>
  C5 (as the code has it). For a valid input index the call has exactly two outcomes: if
  the signer fails, the error \<open>cannot sign tx input: ...\<close> with no bytes; if it
  succeeds, the whole signature, that is the serialized signature followed by the
  trailer byte, with no error. The digest signed is the double hash of the buffer built
  with the fresh cache.
\<close>

theorem RawTxInSignature_valid_index:
  assumes "0 \<le> idx" "idx < int (length (TxIn (mem_tx m)))"
  shows "\<exists>buf. sigHashBuffer H hashType idx amt
                 (m\<lparr>mem_sigHashes := NewTxSigHashes H (mem_tx m)\<rparr>) = Inr buf \<and>
           RawTxInSignature H Sign Serialize idx hashType key amt m =
             (case Sign key (DoubleHashB H buf) of
                Inl err \<Rightarrow> Inl (Error (''cannot sign tx input: '' @ err))
              | Inr signature \<Rightarrow> Inr (Serialize signature @ [ucast (hashType OR SigHashForkID)]),
              m\<lparr>mem_sigHashes := NewTxSigHashes H (mem_tx m)\<rparr>)"
proof -
  let ?m1 = "m\<lparr>mem_sigHashes := NewTxSigHashes H (mem_tx m)\<rparr>"
  have v: "idx < int (length (TxIn (mem_tx ?m1)))" using assms(2) by simp
  obtain buf where b: "sigHashBuffer H hashType idx amt ?m1 = Inr buf"
    using sigHashBuffer_valid [OF assms(1) v] by blast
  have "calcBip143SignatureHash H hashType idx amt ?m1 = (Inr (DoubleHashB H buf), ?m1)"
    using calcBip143SignatureHash_valid [OF assms(1) v b] .
  from RawTxInSignature_returns [OF this, where Sign = Sign and Serialize = Serialize and key = key] b
  show ?thesis by blast
qed

theorem RawTxInSignature_valid_index_witness:
  "(0::int) \<le> 0 \<and> 0 < int (length (TxIn (mem_tx exampleMemory))) \<and>
   fst (RawTxInSignature exampleHash failingSign exampleSerialize 0 0x01 7 5 exampleMemory) =
     Inl (Error ''cannot sign tx input: no signature'')"
  using RawTxInSignature_valid_index
    [where m = exampleMemory and idx = 0 and H = exampleHash and hashType = "0x01" and amt = 5
       and Sign = failingSign and Serialize = exampleSerialize and key = 7]
  by (auto simp add: exampleMemory_def exampleTx_def failingSign_def)

text \<open>
  C5 as the spec states it fails: index 1 of the one-input example transaction is not
  valid, yet the call returns no error. The empty digest goes to the signer, and the
  bytes returned are a signature of it.
\<close>

theorem RawTxInSignature_invalid_index_counterexample:
  "1 \<ge> int (length (TxIn (mem_tx exampleMemory))) \<and>
   fst (RawTxInSignature exampleHash exampleSign exampleSerialize 1 0x41 7 5 exampleMemory) =
     Inr [0x30, 7, 0x41]"
  by (simp add: RawTxInSignature_def calcBip143SignatureHash_def exampleMemory_def exampleTx_def
      exampleSign_def exampleSerialize_def SigHashForkID_def)

section \<open>Determinism\<close>

text \<open>
  C9. For a valid index, two calls with the same index, sighash type and amount, in two
  memories that hold the same transaction, cache and script code (whatever else
  differs, here the standard output), return the same digest; it is 32 bytes long when
  the results of the hash function are; and each call returns its memory as it found
  it, the standard output included.
\<close>

theorem calcBip143SignatureHash_deterministic:
  assumes "0 \<le> idx" "idx < int (length (TxIn (mem_tx m1)))"
    and "mem_tx m2 = mem_tx m1" "mem_sigHashes m2 = mem_sigHashes m1"
        "mem_subScript m2 = mem_subScript m1"
    and "\<And>b. length (H b) = 32"
  shows "\<exists>digest. length digest = 32 \<and>
           calcBip143SignatureHash H hashType idx amt m1 = (Inr digest, m1) \<and>
           calcBip143SignatureHash H hashType idx amt m2 = (Inr digest, m2)"
proof -
  obtain buf where b1: "sigHashBuffer H hashType idx amt m1 = Inr buf"
    using sigHashBuffer_valid [OF assms(1,2)] by blast
  have b2: "sigHashBuffer H hashType idx amt m2 = Inr buf"
    using b1 assms(3,4,5) by (simp add: sigHashBuffer_def)
  have v2: "idx < int (length (TxIn (mem_tx m2)))"
    using assms(2,3) by simp
  have "length (DoubleHashB H buf) = 32"
    using assms(6) by (simp add: DoubleHashB_def)
  with calcBip143SignatureHash_valid [OF assms(1,2) b1]
       calcBip143SignatureHash_valid [OF assms(1) v2 b2]
  show ?thesis by blast
qed

theorem calcBip143SignatureHash_deterministic_witness:
  "(0::int) \<le> 0 \<and> 0 < int (length (TxIn (mem_tx exampleMemory))) \<and>
   (\<exists>digest. length digest = 32 \<and>
     calcBip143SignatureHash exampleHash 0x41 0 5 exampleMemory = (Inr digest, exampleMemory) \<and>
     calcBip143SignatureHash exampleHash 0x41 0 5
         (exampleMemory\<lparr>mem_stdout := ''earlier output''\<rparr>) =
       (Inr digest, exampleMemory\<lparr>mem_stdout := ''earlier output''\<rparr>))"
  using calcBip143SignatureHash_deterministic
    [where ?m1.0 = exampleMemory and ?m2.0 = "exampleMemory\<lparr>mem_stdout := ''earlier output''\<rparr>"
       and idx = 0 and H = exampleHash and hashType = "0x41" and amt = 5]
  by (simp add: exampleMemory_def exampleTx_def exampleHash_def)

end
